theory Spec2Isabelle
  imports Complex_Main "HOL-Library.Word"
begin

section \<open>PlanByWeather: the recommendation engine of the \<open>recommend\<close> Edge Function\<close>

text \<open>
  A shallow embedding of the TypeScript of the Edge Function: \<open>clampInt\<close>,
  \<open>ruleHintsFromWeather\<close>, \<open>fallbackRecommendations\<close>, \<open>callOpenAI\<close> and the
  request handler passed to \<open>Deno.serve\<close>.
\<close>

subsection \<open>JavaScript strings and numbers\<close>

text \<open>
  A JavaScript string is a sequence of UTF-16 code units; \<open>length\<close>, \<open>slice\<close> and
  \<open>trim\<close> count and inspect code units. \<open>js\<close> embeds an ASCII literal; a code unit
  beyond ASCII is written as its number.
\<close>

type_synonym jsstring = "16 word list"

definition js :: "string \<Rightarrow> jsstring" where
  "js s = map of_char s"

text \<open>
  A JavaScript number is a double: a finite value, NaN or one of the two infinities.
  The finite values are modelled by the reals that contain them; the operations the
  program applies to numbers (comparison, \<open>Math.round\<close>, \<open>Math.min\<close>, \<open>Math.max\<close>) are
  exact on doubles, so they agree with the same operations on reals. Negative zero is
  identified with zero: nothing the program does tells them apart.
\<close>

datatype jsnum = Fin real | NaN | PosInf | NegInf

text \<open>The operator \<open><\<close> on numbers; \<open>a > b\<close> is \<open>js_lt b a\<close>.\<close>

fun js_lt :: "jsnum \<Rightarrow> jsnum \<Rightarrow> bool" where
  "js_lt NaN b = False"
| "js_lt a NaN = False"
| "js_lt (Fin x) (Fin y) = (x < y)"
| "js_lt a NegInf = False"
| "js_lt PosInf b = False"
| "js_lt NegInf b = True"
| "js_lt a PosInf = True"

text \<open>\<open>Math.round\<close>: the nearest integer, a tie going towards plus infinity.\<close>

fun Math_round :: "jsnum \<Rightarrow> jsnum" where
  "Math_round (Fin x) = Fin (of_int \<lfloor>x + 1 / 2\<rfloor>)"
| "Math_round n = n"

text \<open>\<open>Math.min\<close> and \<open>Math.max\<close> of two numbers: NaN as soon as one argument is NaN.\<close>

definition Math_min :: "jsnum \<Rightarrow> jsnum \<Rightarrow> jsnum" where
  "Math_min a b = (if a = NaN \<or> b = NaN then NaN else if js_lt b a then b else a)"

definition Math_max :: "jsnum \<Rightarrow> jsnum \<Rightarrow> jsnum" where
  "Math_max a b = (if a = NaN \<or> b = NaN then NaN else if js_lt a b then b else a)"

text \<open>
  \<^verbatim>\<open>function clampInt(n, min, max) { return Math.max(min, Math.min(max, Math.round(n))); }\<close>
\<close>

definition clampInt :: "jsnum \<Rightarrow> jsnum \<Rightarrow> jsnum \<Rightarrow> jsnum" where
  "clampInt n mn mx = Math_max mn (Math_min mx (Math_round n))"

text \<open>What the type of \<open>Recommendation.confidence\<close> promises: an integer from 0 to 100.\<close>

definition confidence_ok :: "jsnum \<Rightarrow> bool" where
  "confidence_ok n =
     (case n of Fin x \<Rightarrow> of_int \<lfloor>x\<rfloor> = x \<and> 0 \<le> x \<and> x \<le> 100 | _ \<Rightarrow> False)"

subsection \<open>The data model\<close>

record WeatherSnapshot =
  provider :: jsstring
  city :: jsstring
  tempC :: jsnum
  windMps :: jsnum
  condition :: jsstring
  isRainy :: bool

record Recommendation =
  title :: jsstring
  reason :: jsstring
  label :: jsstring
  confidence :: jsnum

record RecommendResponse =
  resp_city :: jsstring
  resp_weather :: WeatherSnapshot
  recommendations :: "Recommendation list"

subsection \<open>Values read from JSON\<close>

text \<open>
  The request body, the provider's reply and the text the provider returns are parsed
  JSON: the program reads them untyped (\<open>any\<close>). \<open>undefined\<close> is \<open>None\<close> of
  \<open>json option\<close>. An object is its list of own properties.
\<close>

datatype json =
  JNull
| JBool bool
| JNum jsnum
| JStr jsstring
| JArr "json list"
| JObj "(jsstring \<times> json) list"

type_synonym jsval = "json option"

text \<open>Truthiness, as \<open>&&\<close>, \<open>||\<close>, \<open>!\<close> and \<open>if\<close> read a value.\<close>

fun truthy :: "jsval \<Rightarrow> bool" where
  "truthy None = False"
| "truthy (Some JNull) = False"
| "truthy (Some (JBool b)) = b"
| "truthy (Some (JNum n)) = (n \<noteq> NaN \<and> n \<noteq> Fin 0)"
| "truthy (Some (JStr s)) = (s \<noteq> [])"
| "truthy (Some (JArr xs)) = True"
| "truthy (Some (JObj kvs)) = True"

text \<open>\<open>a ?? b\<close>: \<open>b\<close> when \<open>a\<close> is \<open>null\<close> or \<open>undefined\<close>.\<close>

fun nullish :: "jsval \<Rightarrow> bool" where
  "nullish None = True"
| "nullish (Some JNull) = True"
| "nullish (Some v) = False"

definition coalesce :: "jsval \<Rightarrow> json \<Rightarrow> json" where
  "coalesce a b = (if nullish a then b else the a)"

text \<open>
  \<open>v.k\<close> on a value that is neither \<open>null\<close> nor \<open>undefined\<close>, for a property name
  \<open>k\<close> that is no array index and no member of a built-in prototype (every name the
  program reads by dot is such a name): an object gives its own property, every other
  value \<open>undefined\<close>.
\<close>

fun getprop :: "jsstring \<Rightarrow> json \<Rightarrow> jsval" where
  "getprop k (JObj kvs) = map_of kvs k"
| "getprop k v = None"

text \<open>\<open>v?.k\<close>: \<open>undefined\<close> on \<open>null\<close> and \<open>undefined\<close>, \<open>v.k\<close> otherwise.\<close>

definition optprop :: "jsstring \<Rightarrow> jsval \<Rightarrow> jsval" where
  "optprop k v = (if nullish v then None else getprop k (the v))"

text \<open>
  \<open>v?.[0]\<close>: the first element of an array, the first code unit of a string (as a
  string), the own property \<open>"0"\<close> of an object, \<open>undefined\<close> otherwise.
\<close>

fun index0 :: "json \<Rightarrow> jsval" where
  "index0 (JArr xs) = (case xs of [] \<Rightarrow> None | x # _ \<Rightarrow> Some x)"
| "index0 (JStr s) = (case s of [] \<Rightarrow> None | c # _ \<Rightarrow> Some (JStr [c]))"
| "index0 (JObj kvs) = map_of kvs (js ''0'')"
| "index0 v = None"

definition optindex0 :: "jsval \<Rightarrow> jsval" where
  "optindex0 v = (if nullish v then None else index0 (the v))"

subsection \<open>The Rule Evaluator\<close>

record Flags =
  tooCold :: bool
  tooHot :: bool
  tooWindy :: bool

record Hints =
  preferIndoor :: bool
  rule_notes :: "jsstring list"
  flags :: Flags

definition ruleHintsFromWeather :: "WeatherSnapshot \<Rightarrow> Hints" where
  "ruleHintsFromWeather w =
     (let tooCold = js_lt (tempC w) (Fin 8);
          tooHot = js_lt (Fin 32) (tempC w);
          tooWindy = js_lt (Fin 10) (windMps w);
          preferIndoor = (isRainy w \<or> tooCold \<or> tooHot \<or> tooWindy);
          notes =
            (if isRainy w
             then [js ''Ya'' @ [0x11F] @ [0x131] @ [0x15F] @ js '' var: d'' @ [0x131] @ [0x15F]
                   @ js '' mek'' @ [0xE2] @ js ''n '' @ [0xF6] @ js ''nerilerini azalt.'']
             else [])
            @ (if tooCold
               then [js ''So'' @ [0x11F] @ js ''uk: uzun outdoor aktiviteleri azalt.'']
               else [])
            @ (if tooHot
               then [js ''S'' @ [0x131] @ js ''cak: g'' @ [0xF6] @ js ''lge/klimal'' @ [0x131]
                     @ js '' se'' @ [0xE7] @ js ''enekleri art'' @ [0x131] @ js ''r.'']
               else [])
            @ (if tooWindy
               then [js ''R'' @ [0xFC] @ js ''zgarl'' @ [0x131] @ js '': y'' @ [0xFC] @ js ''r''
                     @ [0xFC] @ js ''y'' @ [0xFC] @ [0x15F] @ js ''/park yerine indoor a''
                     @ [0x11F] @ [0x131] @ js ''rl'' @ [0x131] @ js ''k ver.'']
               else [])
      in \<lparr>preferIndoor = preferIndoor, rule_notes = notes,
          flags = \<lparr>tooCold = tooCold, tooHot = tooHot, tooWindy = tooWindy\<rparr>\<rparr>)"

subsection \<open>The Fallback Generator\<close>

text \<open>The two pools, the local constants \<open>indoor\<close> and \<open>outdoor\<close> of \<open>fallbackRecommendations\<close>.\<close>

definition indoor :: "Recommendation list" where
  "indoor =
    [\<lparr>title = js ''Coffee + a book'',
      reason = js ''Low effort, cozy, and weather-proof.'',
      label = js ''indoor'', confidence = Fin 74\<rparr>,
     \<lparr>title = js ''Museum / gallery visit'',
      reason = js ''A solid 1'' @ [0x2013] @ js ''2 hour plan that doesn'' @ [0x2019]
               @ js ''t depend on the weather.'',
      label = js ''indoor'', confidence = Fin 70\<rparr>,
     \<lparr>title = js ''Cinema or a small event'',
      reason = js ''One of the safest picks when it'' @ [0x2019] @ js ''s rainy or windy.'',
      label = js ''indoor'', confidence = Fin 68\<rparr>,
     \<lparr>title = js ''Gym / short home workout'',
      reason = js ''If you want something active in a controlled environment.'',
      label = js ''indoor'', confidence = Fin 66\<rparr>,
     \<lparr>title = js ''Try a new recipe'',
      reason = js ''A fun low-budget option you can do at home.'',
      label = js ''indoor'', confidence = Fin 62\<rparr>]"

definition outdoor :: "Recommendation list" where
  "outdoor =
    [\<lparr>title = js ''Short walk + photos'',
      reason = js ''If the weather is okay, it'' @ [0x2019]
               @ js ''s the simplest plan that feels good.'',
      label = js ''outdoor'', confidence = Fin 74\<rparr>,
     \<lparr>title = js ''Park coffee break'',
      reason = js ''Keep it short to keep the risk low.'',
      label = js ''outdoor'', confidence = Fin 70\<rparr>,
     \<lparr>title = js ''Bike ride / waterfront loop'',
      reason = js ''Great energy boost if the wind is not too strong.'',
      label = js ''outdoor'', confidence = Fin 66\<rparr>,
     \<lparr>title = js ''Neighborhood walk (new route)'',
      reason = js ''Keep the scope small: 60'' @ [0x2013] @ js ''90 minutes.'',
      label = js ''outdoor'', confidence = Fin 64\<rparr>,
     \<lparr>title = js ''Market run + a small detour'',
      reason = js ''Practical + a bit of fresh air.'',
      label = js ''outdoor'', confidence = Fin 60\<rparr>]"

text \<open>
  \<^verbatim>\<open>const userTarget = place && place !== "either" ? place : null;\<close>
  The parameter \<open>place\<close> is typed \<open>PlacePref | undefined\<close>, and the handler passes
  \<open>body.preferences?.place\<close> unchecked, so it is any value read from JSON.
\<close>

definition userTarget :: "jsval \<Rightarrow> jsval" where
  "userTarget place =
     (if truthy place \<and> place \<noteq> Some (JStr (js ''either'')) then place else Some JNull)"

text \<open>The values of the declared type \<open>PlacePref | undefined\<close> among them.\<close>

definition PlacePref :: "jsval \<Rightarrow> bool" where
  "PlacePref place =
     (place = None \<or> place = Some (JStr (js ''indoor'')) \<or> place = Some (JStr (js ''outdoor''))
      \<or> place = Some (JStr (js ''either'')))"

text \<open>\<^verbatim>\<open>const target = preferIndoor ? "indoor" : userTarget ?? "outdoor";\<close>\<close>

definition target :: "WeatherSnapshot \<Rightarrow> jsval \<Rightarrow> json" where
  "target w place =
     (if preferIndoor (ruleHintsFromWeather w) then JStr (js ''indoor'')
      else coalesce (userTarget place) (JStr (js ''outdoor'')))"

definition safetyNote :: "WeatherSnapshot \<Rightarrow> jsstring" where
  "safetyNote w =
     (if isRainy w
      then js ''It'' @ [0x2019] @ js ''s rainy'' @ [0x2014]
           @ js ''bring a jacket/umbrella and keep it short.''
      else js ''Weather is not ideal'' @ [0x2014] @ js ''keep it short and flexible.'')"

definition extras :: "WeatherSnapshot \<Rightarrow> Recommendation list" where
  "extras w =
    [\<lparr>title = js ''Quick errand walk'', reason = safetyNote w,
      label = js ''outdoor'', confidence = Fin 45\<rparr>,
     \<lparr>title = js ''Short caf'' @ [0xE9] @ js '' hop nearby'', reason = safetyNote w,
      label = js ''outdoor'', confidence = Fin 42\<rparr>]"

definition base :: "WeatherSnapshot \<Rightarrow> jsval \<Rightarrow> Recommendation list" where
  "base w place =
     map (\<lambda>r. r\<lparr>confidence := clampInt (confidence r) (Fin 0) (Fin 100)\<rparr>)
       (if target w place = JStr (js ''indoor'') then indoor else outdoor)"

definition fallbackRecommendations :: "WeatherSnapshot \<Rightarrow> jsval \<Rightarrow> Recommendation list" where
  "fallbackRecommendations w place =
     (if preferIndoor (ruleHintsFromWeather w) \<and> userTarget place = Some (JStr (js ''outdoor''))
      then take 7 (base w place @ extras w)
      else base w place)"

subsection \<open>The JavaScript runtime\<close>

text \<open>
  Three routines of the runtime are parameters of the model: \<open>JSON.parse\<close> (\<open>None\<close>
  when it throws a SyntaxError), the decimal rendering of a finite number by \<open>String\<close>,
  and the reading of a string as a number by \<open>Number\<close>. Every theorem below holds
  for any runtime.
\<close>

record runtime =
  JSON_parse :: "jsstring \<Rightarrow> json option"
  NumberToString :: "real \<Rightarrow> jsstring"
  StringToNumber :: "jsstring \<Rightarrow> jsnum"

text \<open>What the program can throw, as values.\<close>

datatype error =
  FetchFailed
| OpenAIError nat
| BodyNotJson
| NoJsonText
| SyntaxError
| MissingArray
| TypeError

text \<open>
  \<open>String(v)\<close> for a value read from JSON. An array is joined with commas, \<open>null\<close>
  elements giving the empty string. An object is rendered by the inherited
  \<open>toString\<close> unless it has an own property of that name: a value read from JSON is
  never callable, so the conversion to a primitive then throws a TypeError.
\<close>

fun ToString :: "runtime \<Rightarrow> json \<Rightarrow> error + jsstring"
  and join :: "runtime \<Rightarrow> json list \<Rightarrow> error + jsstring" where
  "ToString rt JNull = Inr (js ''null'')"
| "ToString rt (JBool b) = Inr (if b then js ''true'' else js ''false'')"
| "ToString rt (JNum n) =
     Inr (case n of Fin x \<Rightarrow> NumberToString rt x | NaN \<Rightarrow> js ''NaN''
          | PosInf \<Rightarrow> js ''Infinity'' | NegInf \<Rightarrow> js ''-Infinity'')"
| "ToString rt (JStr s) = Inr s"
| "ToString rt (JArr xs) = join rt xs"
| "ToString rt (JObj kvs) =
     (if map_of kvs (js ''toString'') \<noteq> None then Inl TypeError
      else Inr (js ''[object Object]''))"
| "join rt [] = Inr []"
| "join rt (x # xs) =
     (case (if x = JNull then Inr [] else ToString rt x) of
        Inl e \<Rightarrow> Inl e
      | Inr s \<Rightarrow>
          (if xs = [] then Inr s
           else case join rt xs of Inl e \<Rightarrow> Inl e | Inr t \<Rightarrow> Inr (s @ js '','' @ t)))"

text \<open>\<open>Number(v)\<close> for a value read from JSON; an array or an object goes through its string.\<close>

fun ToNumber :: "runtime \<Rightarrow> json \<Rightarrow> error + jsnum" where
  "ToNumber rt JNull = Inr (Fin 0)"
| "ToNumber rt (JBool b) = Inr (Fin (if b then 1 else 0))"
| "ToNumber rt (JNum n) = Inr n"
| "ToNumber rt (JStr s) = Inr (StringToNumber rt s)"
| "ToNumber rt v =
     (case ToString rt v of Inl e \<Rightarrow> Inl e | Inr s \<Rightarrow> Inr (StringToNumber rt s))"

text \<open>\<open>a || b\<close> on values.\<close>

definition or_else :: "jsval \<Rightarrow> json \<Rightarrow> json" where
  "or_else a b = (if truthy a then the a else b)"

text \<open>
  \<open>String.prototype.trim\<close> removes the white space and line terminators of ECMAScript
  from both ends.
\<close>

definition isStrWhiteSpaceChar :: "16 word \<Rightarrow> bool" where
  "isStrWhiteSpaceChar c =
     (c \<in> {0x9, 0xA, 0xB, 0xC, 0xD, 0x20, 0xA0, 0x1680, 0x2028, 0x2029, 0x202F, 0x205F,
            0x3000, 0xFEFF} \<or> (0x2000 \<le> c \<and> c \<le> 0x200A))"

definition trim :: "jsstring \<Rightarrow> jsstring" where
  "trim s = rev (dropWhile isStrWhiteSpaceChar (rev (dropWhile isStrWhiteSpaceChar s)))"

subsection \<open>The Model-Assisted Generator\<close>

text \<open>
  The provider is a collaborator: a function from what the request to it embeds (the
  local \<open>user\<close> object, the key and the model) to the outcome of \<open>fetch\<close>:
  rejected, or a response with \<open>res.ok\<close>, \<open>res.status\<close> and the result of
  \<open>res.json()\<close> (\<open>None\<close> when the body is not JSON).
\<close>

record openai_request =
  rq_apiKey :: jsstring
  rq_model :: jsstring
  rq_city :: jsstring
  rq_mood :: json
  rq_budget :: json
  rq_place :: json
  rq_weather :: WeatherSnapshot
  rq_preferIndoor :: bool
  rq_notes :: "jsstring list"

datatype reply = Rejected | Reply bool nat "json option"

record callArgs =
  apiKey :: jsstring
  model :: jsstring
  req_city :: jsstring
  req_preferences :: jsval
  weather :: WeatherSnapshot

definition user :: "callArgs \<Rightarrow> openai_request" where
  "user args =
     (let h = ruleHintsFromWeather (weather args) in
      \<lparr>rq_apiKey = apiKey args, rq_model = model args, rq_city = req_city args,
       rq_mood = coalesce (optprop (js ''mood'') (req_preferences args)) (JStr (js ''chill'')),
       rq_budget = coalesce (optprop (js ''budget'') (req_preferences args)) (JStr (js ''low'')),
       rq_place = coalesce (optprop (js ''place'') (req_preferences args)) (JStr (js ''either'')),
       rq_weather = weather args, rq_preferIndoor = preferIndoor h, rq_notes = rule_notes h\<rparr>)"

text \<open>
  \<^verbatim>\<open>const text = typeof data?.output_text === "string"
     ? data.output_text : data?.output?.[0]?.content?.[0]?.text;\<close>
\<close>

definition responseText :: "json \<Rightarrow> jsval" where
  "responseText data =
     (case optprop (js ''output_text'') (Some data) of
        Some (JStr s) \<Rightarrow> Some (JStr s)
      | _ \<Rightarrow> optprop (js ''text'') (optindex0 (optprop (js ''content'')
               (optindex0 (optprop (js ''output'') (Some data))))))"

text \<open>
  One step of \<open>recs.map\<close>. Reading a property of \<open>null\<close> throws a TypeError, and so
  does \<open>String\<close> or \<open>Number\<close> of a value that has no primitive.
  \<^verbatim>\<open>
  (r: any) => ({
    title: String(r.title ?? "").slice(0, 60),
    reason: String(r.reason ?? "").slice(0, 140),
    label: r.label === "outdoor" ? "outdoor" : "indoor",
    confidence: clampInt(Number(r.confidence ?? 50), 0, 100),
  })\<close>
\<close>

definition mapRecommendation :: "runtime \<Rightarrow> json \<Rightarrow> error + Recommendation" where
  "mapRecommendation rt r =
     (if r = JNull then Inl TypeError
      else case ToString rt (coalesce (getprop (js ''title'') r) (JStr [])) of
        Inl e \<Rightarrow> Inl e
      | Inr t \<Rightarrow>
         (case ToString rt (coalesce (getprop (js ''reason'') r) (JStr [])) of
            Inl e \<Rightarrow> Inl e
          | Inr rs \<Rightarrow>
             (case ToNumber rt (coalesce (getprop (js ''confidence'') r) (JNum (Fin 50))) of
                Inl e \<Rightarrow> Inl e
              | Inr n \<Rightarrow>
                 Inr \<lparr>title = take 60 t, reason = take 140 rs,
                      label = (if getprop (js ''label'') r = Some (JStr (js ''outdoor''))
                               then js ''outdoor'' else js ''indoor''),
                      confidence = clampInt n (Fin 0) (Fin 100)\<rparr>)))"

text \<open>
  A field that is missing, \<open>null\<close>, a string, a number or a boolean: \<open>String\<close> and
  \<open>Number\<close> of such a field do not throw.
\<close>

definition primitive :: "jsval \<Rightarrow> bool" where
  "primitive v = (case v of Some (JArr xs) \<Rightarrow> False | Some (JObj kvs) \<Rightarrow> False | _ \<Rightarrow> True)"

text \<open>\<open>recs.map\<close>: the elements in order, the first exception ending the call.\<close>

fun mapRecommendations :: "runtime \<Rightarrow> json list \<Rightarrow> error + Recommendation list" where
  "mapRecommendations rt [] = Inr []"
| "mapRecommendations rt (r # rs) =
     (case mapRecommendation rt r of
        Inl e \<Rightarrow> Inl e
      | Inr x \<Rightarrow>
         (case mapRecommendations rt rs of Inl e \<Rightarrow> Inl e | Inr xs \<Rightarrow> Inr (x # xs)))"

text \<open>
  From the provider's reply to the array \<open>recs\<close>: the four checks of \<open>callOpenAI\<close>
  between \<open>fetch\<close> and \<open>recs.map\<close>.
\<close>

definition recs :: "runtime \<Rightarrow> reply \<Rightarrow> error + json list" where
  "recs rt res =
     (case res of
        Rejected \<Rightarrow> Inl FetchFailed
      | Reply ok status body \<Rightarrow>
         (if \<not> ok then Inl (OpenAIError status)
          else (case body of
            None \<Rightarrow> Inl BodyNotJson
          | Some data \<Rightarrow>
             (case responseText data of
                Some (JStr t) \<Rightarrow>
                  (case JSON_parse rt t of
                     None \<Rightarrow> Inl SyntaxError
                   | Some parsed \<Rightarrow>
                      (case optprop (js ''recommendations'') (Some parsed) of
                         Some (JArr xs) \<Rightarrow> Inr xs
                       | _ \<Rightarrow> Inl MissingArray))
              | _ \<Rightarrow> Inl NoJsonText))))"

definition callOpenAI ::
    "runtime \<Rightarrow> (openai_request \<Rightarrow> reply) \<Rightarrow> callArgs \<Rightarrow> error + Recommendation list" where
  "callOpenAI rt fetch args =
     (case recs rt (fetch (user args)) of
        Inl e \<Rightarrow> Inl e
      | Inr xs \<Rightarrow> mapRecommendations rt xs)"

subsection \<open>The request handler\<close>

text \<open>
  The environment of the function and its two collaborators. \<open>fetchOpenWeather\<close>
  is taken by its result: a snapshot, or the message of the Error it throws.
\<close>

record world =
  WEATHER_API_KEY :: "jsstring option"
  OPENAI_API_KEY :: "jsstring option"
  OPENAI_MODEL :: "jsstring option"
  fetchOpenWeather :: "jsstring \<Rightarrow> jsstring \<Rightarrow> jsstring + WeatherSnapshot"
  openai :: "openai_request \<Rightarrow> reply"

text \<open>The request: its method and the result of \<open>req.json()\<close> (\<open>None\<close> when it throws).\<close>

record Request =
  req_method :: jsstring
  req_json :: "json option"

text \<open>
  What the handler answers: a response with a status and the object that \<open>json\<close>
  serialises (none for the reply to OPTIONS), or an exception that leaves the handler.
  The calls to the collaborators are recorded in order.
\<close>

datatype payload = ErrorBody jsstring | Recommend RecommendResponse

datatype outcome = Response nat "payload option" | Uncaught error

datatype event = FetchWeather jsstring jsstring | CallOpenAI openai_request

definition json :: "nat \<Rightarrow> payload \<Rightarrow> outcome" where
  "json status body = Response status (Some body)"

definition env_or :: "jsstring option \<Rightarrow> jsstring \<Rightarrow> jsstring" where
  "env_or v d = (case v of None \<Rightarrow> d | Some s \<Rightarrow> s)"

definition serve :: "runtime \<Rightarrow> world \<Rightarrow> Request \<Rightarrow> event list \<times> outcome" where
  "serve rt W req =
     (if req_method req = js ''OPTIONS'' then ([], Response 204 None)
      else if req_method req \<noteq> js ''POST''
      then ([], json 405 (ErrorBody (js ''Method not allowed. Use POST.'')))
      else case req_json req of
        None \<Rightarrow> ([], json 400 (ErrorBody (js ''Invalid JSON body.'')))
      | Some body \<Rightarrow>
         (case ToString rt (or_else (optprop (js ''city'') (Some body)) (JStr [])) of
            Inl e \<Rightarrow> ([], Uncaught e)
          | Inr s \<Rightarrow>
             (let city = trim s;
                  weatherKey = env_or (WEATHER_API_KEY W) [];
                  openaiKey = env_or (OPENAI_API_KEY W) [];
                  openaiModel = env_or (OPENAI_MODEL W) (js ''gpt-4.1-mini'')
              in if city = [] then ([], json 400 (ErrorBody (js ''city is required.'')))
                 else if weatherKey = []
                 then ([], json 500 (ErrorBody
                        (js ''Missing WEATHER_API_KEY on the server (Edge Function env).'')))
                 else case fetchOpenWeather W city weatherKey of
                   Inl msg \<Rightarrow> ([FetchWeather city weatherKey], json 500 (ErrorBody msg))
                 | Inr w \<Rightarrow>
                    (let preferences = getprop (js ''preferences'') body;
                         place = optprop (js ''place'') preferences;
                         args = \<lparr>apiKey = openaiKey, model = openaiModel, req_city = city,
                                 req_preferences = preferences, weather = w\<rparr>
                     in if openaiKey \<noteq> []
                        then ([FetchWeather city weatherKey, CallOpenAI (user args)],
                              json 200 (Recommend
                                \<lparr>resp_city = city, resp_weather = w,
                                 recommendations =
                                   (case callOpenAI rt (openai W) args of
                                      Inr rs \<Rightarrow> rs
                                    | Inl err \<Rightarrow> fallbackRecommendations w place)\<rparr>))
                        else ([FetchWeather city weatherKey],
                              json 200 (Recommend
                                \<lparr>resp_city = city, resp_weather = w,
                                 recommendations = fallbackRecommendations w place\<rparr>))))))"

subsection \<open>Inputs for the examples\<close>

text \<open>A snapshot as \<open>fetchOpenWeather\<close> builds it, with finite temperature and wind.\<close>

definition snapshot :: "jsstring \<Rightarrow> real \<Rightarrow> real \<Rightarrow> bool \<Rightarrow> WeatherSnapshot" where
  "snapshot c t v rainy =
     \<lparr>provider = js ''openweather'', city = c, tempC = Fin t, windMps = Fin v,
      condition = (if rainy then js ''Rain'' else js ''Clear''), isRainy = rainy\<rparr>"

text \<open>
  The runtime on the arguments the examples reach, as tables: four texts with the value
  \<open>JSON.parse\<close> returns for each, and \<open>Number("high")\<close>, which is NaN. No example
  renders a number as a string. Outside the tables the excerpt says nothing.
\<close>

definition text_empty :: jsstring where
  \<open>text_empty = js ''{"recommendations":[]}''\<close>

definition text_null :: jsstring where
  \<open>text_null = js ''{"recommendations":[null]}''\<close>

definition text_either :: jsstring where
  \<open>text_either = js ''{"recommendations":[{"title":"Picnic","reason":"Sunny all day.","label":"either","confidence":80}]}''\<close>

definition text_high :: jsstring where
  \<open>text_high = js ''{"recommendations":[{"title":"Walk","reason":"Fresh air helps.","label":"outdoor","confidence":"high"}]}''\<close>

definition item_either :: json where
  "item_either =
     JObj [(js ''title'', JStr (js ''Picnic'')), (js ''reason'', JStr (js ''Sunny all day.'')),
           (js ''label'', JStr (js ''either'')), (js ''confidence'', JNum (Fin 80))]"

definition item_high :: json where
  "item_high =
     JObj [(js ''title'', JStr (js ''Walk'')), (js ''reason'', JStr (js ''Fresh air helps.'')),
           (js ''label'', JStr (js ''outdoor'')), (js ''confidence'', JStr (js ''high''))]"

definition runtime_excerpt :: runtime where
  "runtime_excerpt =
     \<lparr>JSON_parse = (\<lambda>t. the (map_of
        [(text_empty, Some (JObj [(js ''recommendations'', JArr [])])),
         (text_null, Some (JObj [(js ''recommendations'', JArr [JNull])])),
         (text_either, Some (JObj [(js ''recommendations'', JArr [item_either])])),
         (text_high, Some (JObj [(js ''recommendations'', JArr [item_high])]))] t)),
      NumberToString = (\<lambda>x. the None),
      StringToNumber = (\<lambda>s. the (map_of [(js ''high'', NaN)] s))\<rparr>"

text \<open>
  A deployment with both keys set, a weather collaborator that reports 2 degrees, wind
  3 m/s and rain for every city, and a provider that answers every request with \<open>res\<close>.
\<close>

definition world_of :: "reply \<Rightarrow> world" where
  "world_of res =
     \<lparr>WEATHER_API_KEY = Some (js ''weather-key''), OPENAI_API_KEY = Some (js ''openai-key''),
      OPENAI_MODEL = None,
      fetchOpenWeather = (\<lambda>c k. Inr (snapshot c 2 3 True)),
      openai = (\<lambda>q. res)\<rparr>"

text \<open>A successful reply of the provider whose \<open>output_text\<close> is \<open>t\<close>.\<close>

definition reply_text :: "jsstring \<Rightarrow> reply" where
  "reply_text t = Reply True 200 (Some (JObj [(js ''output_text'', JStr t)]))"

text \<open>The request \<open>POST {"city": c, "preferences": {"place": p}}\<close>.\<close>

definition request :: "jsstring \<Rightarrow> jsstring \<Rightarrow> Request" where
  "request c p =
     \<lparr>req_method = js ''POST'',
      req_json = Some (JObj [(js ''city'', JStr c),
                             (js ''preferences'', JObj [(js ''place'', JStr p)])])\<rparr>"

text \<open>Arguments of \<open>callOpenAI\<close> for the examples: no preferences, mild dry weather.\<close>

definition example_args :: callArgs where
  "example_args =
     \<lparr>apiKey = js ''openai-key'', model = js ''gpt-4.1-mini'', req_city = js ''Istanbul'',
      req_preferences = None, weather = snapshot (js ''Istanbul'') 22 2 False\<rparr>"

section \<open>Properties\<close>

subsection \<open>Auxiliary facts\<close>

lemma Math_clamp_int:
  "Math_max (Fin 0) (Math_min (Fin 100) (Fin (of_int z))) = Fin (of_int (max 0 (min 100 z)))"
  by (auto simp: Math_min_def Math_max_def max_def min_def)

lemma clampInt_Fin:
  "clampInt (Fin x) (Fin 0) (Fin 100) = Fin (of_int (max 0 (min 100 \<lfloor>x + 1 / 2\<rfloor>)))"
  by (simp only: clampInt_def Math_round.simps Math_clamp_int)

lemma clampInt_NaN: "clampInt NaN (Fin 0) (Fin 100) = NaN"
  by (simp add: clampInt_def Math_min_def Math_max_def)

lemma clampInt_ok: "n \<noteq> NaN \<Longrightarrow> confidence_ok (clampInt n (Fin 0) (Fin 100))"
proof (cases n)
  case (Fin x)
  have "0 \<le> max 0 (min 100 \<lfloor>x + 1 / 2\<rfloor>)" "max 0 (min 100 \<lfloor>x + 1 / 2\<rfloor>) \<le> 100"
    by simp_all
  then have "(0::real) \<le> of_int (max 0 (min 100 \<lfloor>x + 1 / 2\<rfloor>))"
    "(of_int (max 0 (min 100 \<lfloor>x + 1 / 2\<rfloor>)) :: real) \<le> 100"
    by (simp_all only: of_int_0_le_iff of_int_le_numeral_iff)
  then show ?thesis
    using Fin by (simp only: clampInt_Fin confidence_ok_def jsnum.case floor_of_int simp_thms)
qed (simp_all add: clampInt_def Math_min_def Math_max_def confidence_ok_def)

lemma base_indoor_clamped:
  "map (\<lambda>r. r\<lparr>confidence := clampInt (confidence r) (Fin 0) (Fin 100)\<rparr>) indoor = indoor"
  by (simp add: indoor_def clampInt_Fin)

lemma base_outdoor_clamped:
  "map (\<lambda>r. r\<lparr>confidence := clampInt (confidence r) (Fin 0) (Fin 100)\<rparr>) outdoor = outdoor"
  by (simp add: outdoor_def clampInt_Fin)

lemma userTarget_outdoor:
  "(userTarget place = Some (JStr (js ''outdoor''))) = (place = Some (JStr (js ''outdoor'')))"
  by (auto simp: userTarget_def js_def)

lemma target_indoor:
  "(target w place = JStr (js ''indoor'')) =
     (preferIndoor (ruleHintsFromWeather w) \<or> place = Some (JStr (js ''indoor'')))"
proof (cases place)
  case None
  then show ?thesis by (simp add: target_def userTarget_def coalesce_def js_def)
next
  case (Some a)
  then show ?thesis
    by (cases a) (auto simp: target_def userTarget_def coalesce_def js_def)
qed

lemma base_eq:
  "base w place = (if target w place = JStr (js ''indoor'') then indoor else outdoor)"
  by (simp add: base_def base_indoor_clamped base_outdoor_clamped)

lemma fallback_eq:
  "fallbackRecommendations w place =
     (if preferIndoor (ruleHintsFromWeather w) \<and> place = Some (JStr (js ''outdoor''))
      then indoor @ extras w
      else if preferIndoor (ruleHintsFromWeather w) \<or> place = Some (JStr (js ''indoor''))
      then indoor else outdoor)"
  by (simp add: fallbackRecommendations_def userTarget_outdoor base_eq target_indoor
      indoor_def extras_def)

lemma pool_lengths: "length indoor = 5" "length outdoor = 5" "length (extras w) = 2"
  by (simp_all add: indoor_def outdoor_def extras_def)

lemma fallback_length:
  "length (fallbackRecommendations w place) = 5 \<or> length (fallbackRecommendations w place) = 7"
  by (simp add: fallback_eq pool_lengths)

lemma fallback_confidence_ok:
  "list_all (\<lambda>r. confidence_ok (confidence r)) (fallbackRecommendations w place)"
  by (simp add: fallback_eq indoor_def outdoor_def extras_def confidence_ok_def)

lemma safetyNote_differs:
  "safetyNote (w\<lparr>isRainy := True\<rparr>) \<noteq> safetyNote (w\<lparr>isRainy := False\<rparr>)"
  by (simp add: safetyNote_def js_def)

lemma trim_blank:
  assumes "\<forall>c\<in>set s. isStrWhiteSpaceChar c"
  shows "trim s = []"
proof -
  have d: "dropWhile isStrWhiteSpaceChar s = []"
    using assms by (induction s) simp_all
  show ?thesis by (simp only: trim_def d rev.simps dropWhile.simps)
qed

lemma mapRecommendation_Inr:
  assumes "mapRecommendation rt r = Inr x"
  shows "r \<noteq> JNull"
    and "\<exists>t. ToString rt (coalesce (getprop (js ''title'') r) (JStr [])) = Inr t
           \<and> title x = take 60 t"
    and "\<exists>t. ToString rt (coalesce (getprop (js ''reason'') r) (JStr [])) = Inr t
           \<and> reason x = take 140 t"
    and "label x = (if getprop (js ''label'') r = Some (JStr (js ''outdoor''))
                    then js ''outdoor'' else js ''indoor'')"
    and "\<exists>n. ToNumber rt (coalesce (getprop (js ''confidence'') r) (JNum (Fin 50))) = Inr n
           \<and> confidence x = clampInt n (Fin 0) (Fin 100)"
  using assms by (auto simp: mapRecommendation_def split: if_splits sum.splits)

lemma ToString_Inl:
  "ToString rt v = Inl e \<longrightarrow> e = TypeError"
  "join rt xs = Inl e \<longrightarrow> e = TypeError"
  by (induction rt v and rt xs arbitrary: e and e rule: ToString_join.induct)
     (auto split: if_splits sum.splits)

lemma primitive_or_else_ToString:
  "primitive v \<Longrightarrow> \<exists>t. ToString rt (or_else v (JStr s)) = Inr t"
  by (cases v rule: truthy.cases) (auto simp: primitive_def or_else_def)

lemma mapRecommendation_Inl: "mapRecommendation rt r = Inl e \<Longrightarrow> e = TypeError"
proof -
  note s = ToString_Inl
  have n: "\<And>v e. ToNumber rt v = Inl e \<Longrightarrow> e = TypeError"
    subgoal for v e using s(1) [of rt v e] by (cases v) (auto split: sum.splits)
    done
  assume "mapRecommendation rt r = Inl e"
  then show ?thesis
    using s(1) n by (auto simp: mapRecommendation_def split: if_splits sum.splits)
qed

lemma mapRecommendations_Inr:
  "mapRecommendations rt xs = Inr ys \<Longrightarrow> list_all2 (\<lambda>r y. mapRecommendation rt r = Inr y) xs ys"
  by (induction xs arbitrary: ys) (auto split: sum.splits)

lemma callOpenAI_Inr:
  "callOpenAI rt fetch args = Inr ys \<Longrightarrow>
     \<exists>xs. recs rt (fetch (user args)) = Inr xs \<and> mapRecommendations rt xs = Inr ys"
  by (auto simp: callOpenAI_def split: sum.splits)

text \<open>The paths of the handler, by the calls it makes.\<close>

lemma serve_cases
    [case_names options rejected uncaught weather_error fallback_only model_path]:
  obtains
    "req_method req = js ''OPTIONS''" and "serve rt W req = ([], Response 204 None)"
  | st msg where "st = 400 \<or> st = 405 \<or> st = 500"
      and "serve rt W req = ([], json st (ErrorBody msg))"
  | body where "req_method req = js ''POST''" and "req_json req = Some body"
      and "\<not> primitive (optprop (js ''city'') (Some body))"
      and "serve rt W req = ([], Uncaught TypeError)"
  | c k msg where "fetchOpenWeather W c k = Inl msg"
      and "serve rt W req = ([FetchWeather c k], json 500 (ErrorBody msg))"
  | c k w body where "req_json req = Some body" and "fetchOpenWeather W c k = Inr w"
      and "env_or (OPENAI_API_KEY W) [] = []"
      and "serve rt W req =
            ([FetchWeather c k],
             json 200 (Recommend
               \<lparr>resp_city = c, resp_weather = w,
                recommendations =
                  fallbackRecommendations w
                    (optprop (js ''place'') (getprop (js ''preferences'') body))\<rparr>))"
  | c k w body a where "req_json req = Some body" and "fetchOpenWeather W c k = Inr w"
      and "env_or (OPENAI_API_KEY W) [] \<noteq> []"
      and "serve rt W req =
            ([FetchWeather c k, CallOpenAI (user a)],
             json 200 (Recommend
               \<lparr>resp_city = c, resp_weather = w,
                recommendations =
                  (case callOpenAI rt (openai W) a of
                     Inr rs \<Rightarrow> rs
                   | Inl err \<Rightarrow>
                       fallbackRecommendations w
                         (optprop (js ''place'') (getprop (js ''preferences'') body)))\<rparr>))"
proof (cases "req_method req = js ''POST''")
  case False
  show ?thesis
  proof (cases "req_method req = js ''OPTIONS''")
    case True
    then have "serve rt W req = ([], Response 204 None)"
      by (simp add: serve_def)
    with True show ?thesis by (rule that(1))
  next
    case other: False
    then have "serve rt W req =
        ([], json 405 (ErrorBody (js ''Method not allowed. Use POST.'')))"
      using False by (simp add: serve_def)
    then show ?thesis by (intro that(2)) simp_all
  qed
next
  case post: True
  have post': "req_method req \<noteq> js ''OPTIONS''"
    using post by (simp add: js_def)
  show ?thesis
  proof (cases "req_json req")
    case None
    then have "serve rt W req = ([], json 400 (ErrorBody (js ''Invalid JSON body.'')))"
      using post post' by (simp add: serve_def)
    then show ?thesis by (intro that(2)) simp_all
  next
    case (Some body)
    show ?thesis
    proof (cases "ToString rt (or_else (optprop (js ''city'') (Some body)) (JStr []))")
      case (Inl e)
      then have e: "e = TypeError"
        using ToString_Inl(1) by blast
      have "\<not> primitive (optprop (js ''city'') (Some body))"
        using Inl primitive_or_else_ToString
          [of "optprop (js ''city'') (Some body)" rt "[]"] by auto
      moreover have "serve rt W req = ([], Uncaught TypeError)"
        using post post' Some Inl e by (simp add: serve_def)
      ultimately show ?thesis using post Some by (intro that(3))
    next
      case (Inr s)
      show ?thesis
      proof (cases "trim s = []")
        case True
        then have "serve rt W req = ([], json 400 (ErrorBody (js ''city is required.'')))"
          using post post' Some Inr by (simp add: serve_def Let_def)
        then show ?thesis by (intro that(2)) simp_all
      next
        case city: False
        show ?thesis
        proof (cases "env_or (WEATHER_API_KEY W) [] = []")
          case True
          then have "serve rt W req = ([], json 500 (ErrorBody
              (js ''Missing WEATHER_API_KEY on the server (Edge Function env).'')))"
            using post post' Some Inr city by (simp add: serve_def Let_def)
          then show ?thesis by (intro that(2)) simp_all
        next
          case key: False
          show ?thesis
          proof (cases "fetchOpenWeather W (trim s) (env_or (WEATHER_API_KEY W) [])")
            case (Inl msg)
            then have "serve rt W req =
                ([FetchWeather (trim s) (env_or (WEATHER_API_KEY W) [])],
                 json 500 (ErrorBody msg))"
              using post post' Some Inr city key by (simp add: serve_def Let_def)
            with Inl show ?thesis by (rule that(4))
          next
            case w: (Inr w)
            show ?thesis
            proof (cases "env_or (OPENAI_API_KEY W) [] = []")
              case True
              then have "serve rt W req =
                  ([FetchWeather (trim s) (env_or (WEATHER_API_KEY W) [])],
                   json 200 (Recommend
                     \<lparr>resp_city = trim s, resp_weather = w,
                      recommendations =
                        fallbackRecommendations w
                          (optprop (js ''place'') (getprop (js ''preferences'') body))\<rparr>))"
                using post post' Some Inr city key w by (simp add: serve_def Let_def)
              with Some w True show ?thesis by (rule that(5))
            next
              case False
              then have "serve rt W req =
                  ([FetchWeather (trim s) (env_or (WEATHER_API_KEY W) []),
                    CallOpenAI (user \<lparr>apiKey = env_or (OPENAI_API_KEY W) [],
                      model = env_or (OPENAI_MODEL W) (js ''gpt-4.1-mini''),
                      req_city = trim s,
                      req_preferences = getprop (js ''preferences'') body, weather = w\<rparr>)],
                   json 200 (Recommend
                     \<lparr>resp_city = trim s, resp_weather = w,
                      recommendations =
                        (case callOpenAI rt (openai W)
                           \<lparr>apiKey = env_or (OPENAI_API_KEY W) [],
                            model = env_or (OPENAI_MODEL W) (js ''gpt-4.1-mini''),
                            req_city = trim s,
                            req_preferences = getprop (js ''preferences'') body,
                            weather = w\<rparr> of
                           Inr rs \<Rightarrow> rs
                         | Inl err \<Rightarrow>
                             fallbackRecommendations w
                               (optprop (js ''place'') (getprop (js ''preferences'') body)))\<rparr>))"
                using post post' Some Inr city key w by (simp add: serve_def Let_def)
              with Some w False show ?thesis by (rule that(6))
            qed
          qed
        qed
      qed
    qed
  qed
qed

lemma optprop_Some: "optprop k (Some body) = getprop k body"
  by (cases body) (simp_all add: optprop_def)

lemma recs_failures:
  "recs rt Rejected = Inl FetchFailed"
  "recs rt (Reply False st b) = Inl (OpenAIError st)"
  "recs rt (Reply True st None) = Inl BodyNotJson"
  "\<forall>t. responseText data \<noteq> Some (JStr t) \<Longrightarrow> recs rt (Reply True st (Some data)) = Inl NoJsonText"
  "responseText data = Some (JStr t) \<Longrightarrow> JSON_parse rt t = None \<Longrightarrow>
     recs rt (Reply True st (Some data)) = Inl SyntaxError"
  "responseText data = Some (JStr t) \<Longrightarrow> JSON_parse rt t = Some parsed \<Longrightarrow>
     \<forall>xs. optprop (js ''recommendations'') (Some parsed) \<noteq> Some (JArr xs) \<Longrightarrow>
     recs rt (Reply True st (Some data)) = Inl MissingArray"
  by (auto simp: recs_def split: option.splits json.splits)

lemma primitive_ToString:
  "primitive v \<Longrightarrow> \<exists>t. ToString rt (coalesce v (JStr s)) = Inr t"
  by (cases v rule: nullish.cases) (auto simp: primitive_def coalesce_def split: json.splits)

lemma primitive_ToNumber:
  "primitive v \<Longrightarrow> \<exists>n. ToNumber rt (coalesce v (JNum m)) = Inr n"
  by (cases v rule: nullish.cases) (auto simp: primitive_def coalesce_def split: json.splits)

lemmas example_defs = serve_def json_def env_or_def or_else_def optprop_def optindex0_def
  coalesce_def callOpenAI_def recs_def responseText_def user_def mapRecommendation_def
  world_of_def reply_text_def request_def runtime_excerpt_def snapshot_def example_args_def
  text_empty_def text_null_def text_either_def text_high_def item_either_def item_high_def
  trim_def isStrWhiteSpaceChar_def js_def Let_def

subsection \<open>The Rule Evaluator\<close>

text \<open>
  C1. For every snapshot, \<open>preferIndoor\<close> is exactly the disjunction of \<open>isRainy\<close>,
  \<open>tooCold\<close>, \<open>tooHot\<close> and \<open>tooWindy\<close>, where for a finite reading \<open>tooCold\<close> is
  temperature \<open>< 8\<close>, \<open>tooHot\<close> is temperature \<open>> 32\<close> and \<open>tooWindy\<close> is wind speed
  \<open>> 10\<close>. (The comparisons are those of JavaScript: false on NaN, and an infinite
  reading compares as its sign says.)
\<close>

theorem preferIndoor_is_disjunction:
  "preferIndoor (ruleHintsFromWeather w) =
     (isRainy w \<or> tooCold (flags (ruleHintsFromWeather w))
      \<or> tooHot (flags (ruleHintsFromWeather w)) \<or> tooWindy (flags (ruleHintsFromWeather w)))
   \<and> tooCold (flags (ruleHintsFromWeather w)) =
       (case tempC w of Fin t \<Rightarrow> t < 8 | NegInf \<Rightarrow> True | _ \<Rightarrow> False)
   \<and> tooHot (flags (ruleHintsFromWeather w)) =
       (case tempC w of Fin t \<Rightarrow> 32 < t | PosInf \<Rightarrow> True | _ \<Rightarrow> False)
   \<and> tooWindy (flags (ruleHintsFromWeather w)) =
       (case windMps w of Fin v \<Rightarrow> 10 < v | PosInf \<Rightarrow> True | _ \<Rightarrow> False)"
  by (simp add: ruleHintsFromWeather_def Let_def split: jsnum.split)

subsection \<open>The Fallback Generator\<close>

text \<open>
  C4. The fallback returns exactly 5 entries with one label, except when
  \<open>preferIndoor\<close> holds and the place is \<open>"outdoor"\<close>: then it returns 7 entries, the
  5 of the indoor pool followed by the 2 extra outdoor entries. The extras carry the
  confidences 45 and 42 (in this order) and both carry the safety note, which is one text
  when it rains and another when it does not.
\<close>

theorem fallback_five_or_seven:
  "(if preferIndoor (ruleHintsFromWeather w) \<and> place = Some (JStr (js ''outdoor''))
    then fallbackRecommendations w place = indoor @ extras w
       \<and> length (fallbackRecommendations w place) = 7
       \<and> map label (fallbackRecommendations w place) =
           replicate 5 (js ''indoor'') @ replicate 2 (js ''outdoor'')
    else length (fallbackRecommendations w place) = 5
       \<and> (map label (fallbackRecommendations w place) = replicate 5 (js ''indoor'')
          \<or> map label (fallbackRecommendations w place) = replicate 5 (js ''outdoor'')))
   \<and> length indoor = 5
   \<and> map confidence (extras w) = [Fin 45, Fin 42]
   \<and> map reason (extras w) = [safetyNote w, safetyNote w]
   \<and> safetyNote w = safetyNote (w\<lparr>city := c, tempC := t, windMps := v\<rparr>)
   \<and> safetyNote (w\<lparr>isRainy := True\<rparr>) \<noteq> safetyNote (w\<lparr>isRainy := False\<rparr>)"
proof -
  have lab: "map label indoor = replicate 5 (js ''indoor'')"
    "map label outdoor = replicate 5 (js ''outdoor'')"
    "map label (extras w) = replicate 2 (js ''outdoor'')"
    by (simp_all add: indoor_def outdoor_def extras_def numeral_eq_Suc)
  have ex: "map confidence (extras w) = [Fin 45, Fin 42]"
    "map reason (extras w) = [safetyNote w, safetyNote w]"
    by (simp_all add: extras_def)
  have same: "safetyNote w = safetyNote (w\<lparr>city := c, tempC := t, windMps := v\<rparr>)"
    by (simp add: safetyNote_def)
  show ?thesis
    using lab ex same safetyNote_differs [of w] by (simp add: fallback_eq pool_lengths)
qed

theorem fallback_five_or_seven_witness:
  "fallbackRecommendations (snapshot (js ''Istanbul'') 2 3 True) (Some (JStr (js ''outdoor''))) =
     indoor @ extras (snapshot (js ''Istanbul'') 2 3 True)
   \<and> length (fallbackRecommendations (snapshot (js ''Istanbul'') 2 3 True)
        (Some (JStr (js ''outdoor'')))) = 7
   \<and> length (fallbackRecommendations (snapshot (js ''Istanbul'') 22 2 False)
        (Some (JStr (js ''outdoor'')))) = 5"
proof -
  have a: "preferIndoor (ruleHintsFromWeather (snapshot (js ''Istanbul'') 2 3 True))"
    and b: "\<not> preferIndoor (ruleHintsFromWeather (snapshot (js ''Istanbul'') 22 2 False))"
    by (simp_all add: ruleHintsFromWeather_def snapshot_def)
  show ?thesis
    using fallback_five_or_seven [of "snapshot (js ''Istanbul'') 2 3 True"
        "Some (JStr (js ''outdoor''))"]
      fallback_five_or_seven [of "snapshot (js ''Istanbul'') 22 2 False"
        "Some (JStr (js ''outdoor''))"] a b
    by (simp add: pool_lengths)
qed

text \<open>
  C5. For a place of the parameter's type: the target is \<open>"indoor"\<close> when
  \<open>preferIndoor\<close> holds, otherwise the place when it is \<open>"indoor"\<close> or \<open>"outdoor"\<close>,
  otherwise (absent or \<open>"either"\<close>) \<open>"outdoor"\<close>; the base pool, the first five entries of
  the result, is the pool of the target. With \<open>"either"\<close> and adverse weather the result
  is the indoor pool and nothing else.
\<close>

theorem fallback_target:
  assumes "PlacePref place"
  shows "target w place =
       (if preferIndoor (ruleHintsFromWeather w) then JStr (js ''indoor'')
        else if place = Some (JStr (js ''indoor'')) \<or> place = Some (JStr (js ''outdoor''))
        then the place else JStr (js ''outdoor''))
     \<and> base w place = (if target w place = JStr (js ''indoor'') then indoor else outdoor)
     \<and> take 5 (fallbackRecommendations w place) = base w place
     \<and> (preferIndoor (ruleHintsFromWeather w) \<and> place = Some (JStr (js ''either''))
        \<longrightarrow> fallbackRecommendations w place = indoor)"
proof -
  have t: "target w place =
       (if preferIndoor (ruleHintsFromWeather w) then JStr (js ''indoor'')
        else if place = Some (JStr (js ''indoor'')) \<or> place = Some (JStr (js ''outdoor''))
        then the place else JStr (js ''outdoor''))"
    using assms by (auto simp: PlacePref_def target_def userTarget_def coalesce_def js_def)
  have tk: "take 5 (fallbackRecommendations w place) = base w place"
    by (simp add: fallback_eq base_eq target_indoor pool_lengths)
  have e: "Some (JStr (js ''either'')) \<noteq> Some (JStr (js ''outdoor''))"
    by (simp add: js_def)
  show ?thesis using t tk e by (simp add: base_eq fallback_eq)
qed

theorem fallback_target_witness:
  "PlacePref (Some (JStr (js ''either'')))
   \<and> target (snapshot (js ''Istanbul'') 2 3 False) (Some (JStr (js ''either''))) =
       JStr (js ''indoor'')
   \<and> fallbackRecommendations (snapshot (js ''Istanbul'') 2 3 False)
        (Some (JStr (js ''either''))) = indoor"
proof -
  have p: "PlacePref (Some (JStr (js ''either'')))"
    by (simp add: PlacePref_def)
  have h: "preferIndoor (ruleHintsFromWeather (snapshot (js ''Istanbul'') 2 3 False))"
    by (simp add: ruleHintsFromWeather_def snapshot_def)
  show ?thesis
    using fallback_target [OF p, of "snapshot (js ''Istanbul'') 2 3 False"] p h by simp
qed

text \<open>
  C9. The fallback is a function of its two arguments alone, and of the snapshot it
  reads only the temperature, the wind speed and the rain flag: two calls that agree on
  these and on the place return the same list, entry by entry. Equal arguments are the
  special case.
\<close>

theorem fallback_deterministic:
  assumes "tempC w = tempC w'" and "windMps w = windMps w'" and "isRainy w = isRainy w'"
    and "place = place'"
  shows "fallbackRecommendations w place = fallbackRecommendations w' place'"
  using assms
  by (simp add: fallbackRecommendations_def base_def target_def extras_def safetyNote_def
      ruleHintsFromWeather_def)

theorem fallback_deterministic_witness:
  "fallbackRecommendations (snapshot (js ''Istanbul'') 2 3 True) (Some (JStr (js ''outdoor''))) =
   fallbackRecommendations (snapshot (js ''Ankara'') 2 3 True) (Some (JStr (js ''outdoor'')))"
  by (rule fallback_deterministic) (simp_all add: snapshot_def)

subsection \<open>The Model-Assisted Generator\<close>

text \<open>
  C7, as the claim states it, fails: a label the provider returns is passed through
  only when it is \<open>"indoor"\<close> or \<open>"outdoor"\<close>. For the provider's item with the label
  \<open>"either"\<close> the generator returns the label \<open>"indoor"\<close>.
\<close>

theorem label_rewritten_counterexample:
  "recs runtime_excerpt (reply_text text_either) = Inr [item_either]
   \<and> getprop (js ''label'') item_either = Some (JStr (js ''either''))
   \<and> callOpenAI runtime_excerpt (\<lambda>q. reply_text text_either) example_args =
       Inr [\<lparr>title = js ''Picnic'', reason = js ''Sunny all day.'', label = js ''indoor'',
             confidence = Fin 80\<rparr>]"
  by (simp add: example_defs clampInt_Fin)

text \<open>
  C7, amended. When the generator returns, it returns one Recommendation for each
  element of the provider's array, in order, none added and none dropped (the
  fallback's mixing of labels has no counterpart here); the label of each is
  \<open>"outdoor"\<close> when the element's label is the string \<open>"outdoor"\<close> and \<open>"indoor"\<close>
  otherwise, so the labels \<open>"indoor"\<close> and \<open>"outdoor"\<close> come back as the provider gave
  them.
\<close>

theorem callOpenAI_labels:
  assumes "callOpenAI rt fetch args = Inr ys"
  shows "\<exists>xs. recs rt (fetch (user args)) = Inr xs \<and> length ys = length xs
     \<and> map label ys =
         map (\<lambda>r. if getprop (js ''label'') r = Some (JStr (js ''outdoor''))
                  then js ''outdoor'' else js ''indoor'') xs
     \<and> (\<forall>i<length xs.
           getprop (js ''label'') (xs ! i) = Some (JStr (js ''indoor''))
           \<or> getprop (js ''label'') (xs ! i) = Some (JStr (js ''outdoor''))
           \<longrightarrow> getprop (js ''label'') (xs ! i) = Some (JStr (label (ys ! i))))"
proof -
  obtain xs where xs: "recs rt (fetch (user args)) = Inr xs"
      and m: "mapRecommendations rt xs = Inr ys"
    using callOpenAI_Inr [OF assms] by blast
  have all: "list_all2 (\<lambda>r y. mapRecommendation rt r = Inr y) xs ys"
    using m by (rule mapRecommendations_Inr)
  then have len: "length ys = length xs"
    by (simp add: list_all2_lengthD)
  have lab: "label (ys ! i) =
      (if getprop (js ''label'') (xs ! i) = Some (JStr (js ''outdoor''))
       then js ''outdoor'' else js ''indoor'')" if "i < length xs" for i
    using list_all2_nthD [OF all that] by (rule mapRecommendation_Inr(4))
  have "map label ys =
      map (\<lambda>r. if getprop (js ''label'') r = Some (JStr (js ''outdoor''))
               then js ''outdoor'' else js ''indoor'') xs"
    using len lab by (simp add: list_eq_iff_nth_eq)
  moreover have "getprop (js ''label'') (xs ! i) = Some (JStr (label (ys ! i)))"
    if "i < length xs"
      and "getprop (js ''label'') (xs ! i) = Some (JStr (js ''indoor''))
           \<or> getprop (js ''label'') (xs ! i) = Some (JStr (js ''outdoor''))" for i
    using that lab [of i] by (auto simp: js_def)
  ultimately show ?thesis using xs len by blast
qed

theorem callOpenAI_labels_witness:
  "callOpenAI runtime_excerpt (\<lambda>q. reply_text text_high) example_args =
     Inr [\<lparr>title = js ''Walk'', reason = js ''Fresh air helps.'', label = js ''outdoor'',
           confidence = NaN\<rparr>]
   \<and> recs runtime_excerpt (reply_text text_high) = Inr [item_high]
   \<and> getprop (js ''label'') item_high = Some (JStr (js ''outdoor''))"
proof -
  let ?y = "\<lparr>title = js ''Walk'', reason = js ''Fresh air helps.'', label = js ''outdoor'',
      confidence = NaN\<rparr>"
  have c: "callOpenAI runtime_excerpt (\<lambda>q. reply_text text_high) example_args = Inr [?y]"
    by (simp add: example_defs clampInt_NaN)
  have r: "recs runtime_excerpt (reply_text text_high) = Inr [item_high]"
    by (simp add: example_defs)
  have l: "getprop (js ''label'') item_high = Some (JStr (js ''outdoor''))"
    by (simp add: item_high_def js_def)
  obtain xs where xs: "recs runtime_excerpt (reply_text text_high) = Inr xs"
    and p: "\<forall>i<length xs.
           getprop (js ''label'') (xs ! i) = Some (JStr (js ''indoor''))
           \<or> getprop (js ''label'') (xs ! i) = Some (JStr (js ''outdoor''))
           \<longrightarrow> getprop (js ''label'') (xs ! i) = Some (JStr (label ([?y] ! i)))"
    using callOpenAI_labels [OF c] by blast
  have "xs = [item_high]"
    using xs r by simp
  then have "getprop (js ''label'') item_high = Some (JStr (label ?y))"
    using p l by simp
  then show ?thesis using c r by simp
qed

text \<open>
  C10, as the claim states it, fails: an element \<open>null\<close> of the array makes the
  mapping, and with it the generator, throw.
\<close>

theorem mapRecommendation_null_counterexample:
  "mapRecommendation runtime_excerpt JNull = Inl TypeError
   \<and> recs runtime_excerpt (reply_text text_null) = Inr [JNull]
   \<and> callOpenAI runtime_excerpt (\<lambda>q. reply_text text_null) example_args = Inl TypeError"
  by (simp add: example_defs)

text \<open>
  C10, amended. When the mapping of an element returns, the title has at most 60 code
  units, the reason at most 140, the label is \<open>"indoor"\<close> or \<open>"outdoor"\<close>, a missing (or
  \<open>null\<close>) title or reason has become the empty string and a missing (or \<open>null\<close>)
  confidence has become 50. It returns for every element that is not \<open>null\<close> and whose
  title, reason and confidence are each missing, \<open>null\<close>, a string, a number or a
  boolean; when it does not return it throws a TypeError.
\<close>

theorem mapRecommendation_shape:
  "case mapRecommendation rt r of
     Inr x \<Rightarrow>
       length (title x) \<le> 60 \<and> length (reason x) \<le> 140
       \<and> (label x = js ''indoor'' \<or> label x = js ''outdoor'')
       \<and> (nullish (getprop (js ''title'') r) \<longrightarrow> title x = [])
       \<and> (nullish (getprop (js ''reason'') r) \<longrightarrow> reason x = [])
       \<and> (nullish (getprop (js ''confidence'') r) \<longrightarrow> confidence x = Fin 50)
   | Inl e \<Rightarrow>
       e = TypeError
       \<and> (r = JNull \<or> \<not> primitive (getprop (js ''title'') r)
          \<or> \<not> primitive (getprop (js ''reason'') r)
          \<or> \<not> primitive (getprop (js ''confidence'') r))"
proof (cases "mapRecommendation rt r")
  case (Inl e)
  have "r = JNull \<or> \<not> primitive (getprop (js ''title'') r)
      \<or> \<not> primitive (getprop (js ''reason'') r)
      \<or> \<not> primitive (getprop (js ''confidence'') r)"
  proof (rule ccontr)
    assume "\<not> ?thesis"
    then have r: "r \<noteq> JNull" and p: "primitive (getprop (js ''title'') r)"
      "primitive (getprop (js ''reason'') r)" "primitive (getprop (js ''confidence'') r)"
      by simp_all
    obtain t u n where "ToString rt (coalesce (getprop (js ''title'') r) (JStr [])) = Inr t"
      "ToString rt (coalesce (getprop (js ''reason'') r) (JStr [])) = Inr u"
      "ToNumber rt (coalesce (getprop (js ''confidence'') r) (JNum (Fin 50))) = Inr n"
      using primitive_ToString [OF p(1)] primitive_ToString [OF p(2)]
        primitive_ToNumber [OF p(3)] by blast
    then show False
      using Inl r by (simp add: mapRecommendation_def)
  qed
  then show ?thesis
    using Inl mapRecommendation_Inl [OF Inl] by simp
next
  case (Inr x)
  note f = mapRecommendation_Inr [OF Inr]
  have "length (title x) \<le> 60" "length (reason x) \<le> 140"
    using f(2,3) by auto
  moreover have "label x = js ''indoor'' \<or> label x = js ''outdoor''"
    using f(4) by simp
  moreover have "title x = []" if "nullish (getprop (js ''title'') r)"
    using f(2) that by (simp add: coalesce_def)
  moreover have "reason x = []" if "nullish (getprop (js ''reason'') r)"
    using f(3) that by (simp add: coalesce_def)
  moreover have "confidence x = Fin 50" if "nullish (getprop (js ''confidence'') r)"
    using f(5) that by (simp add: coalesce_def clampInt_Fin)
  ultimately show ?thesis using Inr by simp
qed

theorem mapRecommendation_shape_witness:
  "mapRecommendation runtime_excerpt (JObj [(js ''label'', JStr (js ''outdoor''))]) =
     Inr \<lparr>title = [], reason = [], label = js ''outdoor'', confidence = Fin 50\<rparr>
   \<and> nullish (getprop (js ''title'') (JObj [(js ''label'', JStr (js ''outdoor''))]))
   \<and> nullish (getprop (js ''confidence'') (JObj [(js ''label'', JStr (js ''outdoor''))]))"
proof -
  have n: "nullish (getprop (js ''title'') (JObj [(js ''label'', JStr (js ''outdoor''))]))"
    "nullish (getprop (js ''reason'') (JObj [(js ''label'', JStr (js ''outdoor''))]))"
    "nullish (getprop (js ''confidence'') (JObj [(js ''label'', JStr (js ''outdoor''))]))"
    "getprop (js ''label'') (JObj [(js ''label'', JStr (js ''outdoor''))]) =
       Some (JStr (js ''outdoor''))"
    by (simp_all add: js_def)
  obtain x where x: "mapRecommendation runtime_excerpt
       (JObj [(js ''label'', JStr (js ''outdoor''))]) = Inr x"
    using n by (simp add: mapRecommendation_def coalesce_def)
  have "title x = []" "reason x = []" "confidence x = Fin 50"
    using mapRecommendation_shape [where rt = runtime_excerpt
        and r = "JObj [(js ''label'', JStr (js ''outdoor''))]"] x n
    by simp_all
  moreover have "label x = js ''outdoor''"
    using mapRecommendation_Inr(4) [OF x] n(4) by simp
  ultimately have "x = \<lparr>title = [], reason = [], label = js ''outdoor'', confidence = Fin 50\<rparr>"
    by simp
  with x n show ?thesis by simp
qed

subsection \<open>The request handler\<close>

text \<open>
  C2, as the claim states it, fails on the model-assisted path: the provider's array
  is mapped element by element and its length is never checked. When the provider
  returns an empty array, the response is a success with no recommendation.
\<close>

theorem serve_empty_list_counterexample:
  "snd (serve runtime_excerpt (world_of (reply_text text_empty))
          (request (js ''Istanbul'') (js ''either''))) =
     json 200 (Recommend
       \<lparr>resp_city = js ''Istanbul'', resp_weather = snapshot (js ''Istanbul'') 2 3 True,
        recommendations = []\<rparr>)"
  by (simp add: example_defs)

text \<open>
  C2, amended. A response that carries a recommendation list has status 200, and its
  list is either the output of the Fallback Generator, of 5 or 7 entries, or the
  output of the Model-Assisted Generator, which has exactly as many entries as the
  array the provider returned. Otherwise an explicit error is returned: a response
  whose body is an error message, with status 400, 405 or 500. The two outcomes that
  are neither are the reply 204 without a body to the method OPTIONS, and a TypeError
  that leaves the handler, thrown by \<open>String\<close> outside the \<open>try\<close> block, for a POST
  request whose city is an array or an object.
\<close>

theorem serve_list_fallback_or_model:
  "case snd (serve rt W req) of
     Response st (Some (Recommend r)) \<Rightarrow>
       st = 200
       \<and> ((\<exists>w place. recommendations r = fallbackRecommendations w place
              \<and> (length (recommendations r) = 5 \<or> length (recommendations r) = 7))
          \<or> (env_or (OPENAI_API_KEY W) [] \<noteq> []
             \<and> (\<exists>q xs. CallOpenAI q \<in> set (fst (serve rt W req))
                   \<and> recs rt (openai W q) = Inr xs
                   \<and> mapRecommendations rt xs = Inr (recommendations r)
                   \<and> length (recommendations r) = length xs)))
   | Response st (Some (ErrorBody msg)) \<Rightarrow> st = 400 \<or> st = 405 \<or> st = 500
   | Response st None \<Rightarrow>
       st = 204 \<and> req_method req = js ''OPTIONS'' \<and> fst (serve rt W req) = []
   | Uncaught e \<Rightarrow>
       e = TypeError \<and> req_method req = js ''POST'' \<and> fst (serve rt W req) = []
       \<and> (\<exists>body. req_json req = Some body
              \<and> \<not> primitive (optprop (js ''city'') (Some body)))"
proof (cases rt W req rule: serve_cases)
  case options
  then show ?thesis by simp
next
  case (rejected st msg)
  then show ?thesis by (simp add: json_def)
next
  case (uncaught body)
  then show ?thesis by simp
next
  case (weather_error c k msg)
  then show ?thesis by (simp add: json_def)
next
  case (fallback_only c k w body)
  then show ?thesis
    using fallback_length [of w "optprop (js ''place'') (getprop (js ''preferences'') body)"]
    by (auto simp: json_def)
next
  case (model_path c k w body a)
  show ?thesis
  proof (cases "callOpenAI rt (openai W) a")
    case (Inl e)
    then show ?thesis
      using model_path(4)
        fallback_length [of w "optprop (js ''place'') (getprop (js ''preferences'') body)"]
      by (auto simp: json_def)
  next
    case (Inr ys)
    then obtain xs where xs: "recs rt (openai W (user a)) = Inr xs"
        and m: "mapRecommendations rt xs = Inr ys"
      using callOpenAI_Inr by blast
    have "length ys = length xs"
      using mapRecommendations_Inr [OF m] by (simp add: list_all2_lengthD)
    then have "\<exists>q xs. CallOpenAI q \<in> set (fst (serve rt W req))
        \<and> recs rt (openai W q) = Inr xs \<and> mapRecommendations rt xs = Inr ys
        \<and> length ys = length xs"
      using xs m model_path(4) by auto
    then show ?thesis
      using Inr model_path(3,4) by (simp add: json_def)
  qed
qed

text \<open>
  C3. When the weather fetch has succeeded and the model was called, any failure of
  the Model-Assisted Generator (the request to the provider rejected, a non-success
  status, a body that is not JSON, no text in it, a text that does not parse, a
  \<open>recommendations\<close> field that is not an array, an exception while mapping an
  element) leaves the response a success whose list is exactly the Fallback
  Generator's output for the snapshot and the request's place preference.
\<close>

theorem model_failure_gives_fallback:
  assumes run: "serve rt W req = (evs, out)"
    and fetched: "FetchWeather c k \<in> set evs" "fetchOpenWeather W c k = Inr w"
    and called: "CallOpenAI q \<in> set evs"
    and failed:
      "openai W q = Rejected
       \<or> (\<exists>st b. openai W q = Reply False st b)
       \<or> (\<exists>st. openai W q = Reply True st None)
       \<or> (\<exists>st data. openai W q = Reply True st (Some data)
             \<and> (\<forall>t. responseText data \<noteq> Some (JStr t)))
       \<or> (\<exists>st data t. openai W q = Reply True st (Some data)
             \<and> responseText data = Some (JStr t) \<and> JSON_parse rt t = None)
       \<or> (\<exists>st data t parsed. openai W q = Reply True st (Some data)
             \<and> responseText data = Some (JStr t) \<and> JSON_parse rt t = Some parsed
             \<and> (\<forall>xs. optprop (js ''recommendations'') (Some parsed) \<noteq> Some (JArr xs)))
       \<or> (\<exists>xs e. recs rt (openai W q) = Inr xs \<and> mapRecommendations rt xs = Inl e)"
  shows "out = json 200 (Recommend
           \<lparr>resp_city = c, resp_weather = w,
            recommendations =
              fallbackRecommendations w
                (optprop (js ''place'') (optprop (js ''preferences'') (req_json req)))\<rparr>)"
proof (cases rt W req rule: serve_cases)
  case options
  then show ?thesis using run called by simp
next
  case (rejected st msg)
  then show ?thesis using run called by simp
next
  case (uncaught body)
  then show ?thesis using run called by simp
next
  case (weather_error c' k' msg)
  then show ?thesis using run called by simp
next
  case (fallback_only c' k' w' body)
  then show ?thesis using run called by simp
next
  case (model_path c' k' w' body a)
  have eq: "c' = c" "k' = k" "q = user a"
    using model_path(4) run fetched(1) called by auto
  then have w: "w' = w"
    using model_path(2) fetched(2) by simp
  have "\<exists>e. callOpenAI rt (openai W) a = Inl e"
    using failed unfolding callOpenAI_def eq(3) [symmetric]
    by (elim disjE exE conjE) (simp_all add: recs_failures)
  then show ?thesis
    using model_path(1,4) run eq w by (auto simp: optprop_Some)
qed

theorem model_failure_gives_fallback_witness:
  "snd (serve runtime_excerpt (world_of (Reply False 500 None))
          (request (js ''Istanbul'') (js ''outdoor''))) =
     json 200 (Recommend
       \<lparr>resp_city = js ''Istanbul'', resp_weather = snapshot (js ''Istanbul'') 2 3 True,
        recommendations =
          fallbackRecommendations (snapshot (js ''Istanbul'') 2 3 True)
            (Some (JStr (js ''outdoor'')))\<rparr>)
   \<and> length (fallbackRecommendations (snapshot (js ''Istanbul'') 2 3 True)
        (Some (JStr (js ''outdoor'')))) = 7"
proof -
  let ?W = "world_of (Reply False 500 None)"
  let ?req = "request (js ''Istanbul'') (js ''outdoor'')"
  let ?q = "user \<lparr>apiKey = js ''openai-key'', model = js ''gpt-4.1-mini'',
      req_city = js ''Istanbul'',
      req_preferences = Some (JObj [(js ''place'', JStr (js ''outdoor''))]),
      weather = snapshot (js ''Istanbul'') 2 3 True\<rparr>"
  have evs: "fst (serve runtime_excerpt ?W ?req) =
      [FetchWeather (js ''Istanbul'') (js ''weather-key''), CallOpenAI ?q]"
    by (simp add: example_defs)
  have run: "serve runtime_excerpt ?W ?req =
      (fst (serve runtime_excerpt ?W ?req), snd (serve runtime_excerpt ?W ?req))"
    by simp
  have a: "FetchWeather (js ''Istanbul'') (js ''weather-key'')
      \<in> set (fst (serve runtime_excerpt ?W ?req))"
    and b: "CallOpenAI ?q \<in> set (fst (serve runtime_excerpt ?W ?req))"
    by (simp_all add: evs)
  have c: "fetchOpenWeather ?W (js ''Istanbul'') (js ''weather-key'') =
      Inr (snapshot (js ''Istanbul'') 2 3 True)"
    by (simp add: world_of_def)
  have d: "\<exists>st b. openai ?W ?q = Reply False st b"
    by (simp add: world_of_def)
  have p: "optprop (js ''place'') (optprop (js ''preferences'') (req_json ?req)) =
      Some (JStr (js ''outdoor''))"
    by (simp add: request_def optprop_def js_def)
  have l: "length (fallbackRecommendations (snapshot (js ''Istanbul'') 2 3 True)
        (Some (JStr (js ''outdoor'')))) = 7"
    by (simp add: fallback_eq pool_lengths ruleHintsFromWeather_def snapshot_def)
  show ?thesis
    using model_failure_gives_fallback [OF run a c b disjI2 [OF disjI1 [OF d]]] p l
    by simp
qed

text \<open>
  C6 fails on the model-assisted path. \<open>clampInt\<close> returns NaN for NaN, and
  \<open>Number\<close> gives NaN for a confidence that is no number: for the provider's item
  with the confidence \<open>"high"\<close>, the response is a success whose recommendation has the
  confidence NaN, which is no integer from 0 to 100. (Serialised by
  \<open>JSON.stringify\<close>, the field reads \<open>null\<close>.)
\<close>

theorem confidence_NaN_in_response:
  "recs runtime_excerpt (reply_text text_high) = Inr [item_high]
   \<and> snd (serve runtime_excerpt (world_of (reply_text text_high))
          (request (js ''Istanbul'') (js ''either''))) =
     json 200 (Recommend
       \<lparr>resp_city = js ''Istanbul'', resp_weather = snapshot (js ''Istanbul'') 2 3 True,
        recommendations =
          [\<lparr>title = js ''Walk'', reason = js ''Fresh air helps.'', label = js ''outdoor'',
            confidence = NaN\<rparr>]\<rparr>)
   \<and> \<not> confidence_ok NaN"
  by (simp add: example_defs clampInt_NaN confidence_ok_def)

text \<open>
  What does hold of the confidence: the fallback's are integers from 0 to 100, and the
  model path's is one unless \<open>Number\<close> gave NaN.
\<close>

lemma mapRecommendation_confidence:
  assumes "mapRecommendation rt r = Inr x"
  shows "confidence x = NaN \<or> confidence_ok (confidence x)"
proof -
  obtain n where "confidence x = clampInt n (Fin 0) (Fin 100)"
    using mapRecommendation_Inr(5) [OF assms] by blast
  then show ?thesis
    using clampInt_ok [of n] clampInt_NaN by (cases "n = NaN") simp_all
qed

text \<open>
  C8. A POST request whose city is a string of white space only (or the empty string)
  is answered with status 400 and the error \<open>city is required.\<close>; no collaborator is
  called, the weather fetch in particular, and no recommendation is produced.
\<close>

theorem blank_city_rejected:
  assumes "req_method req = js ''POST''" and "req_json req = Some body"
    and "optprop (js ''city'') (Some body) = Some (JStr s)"
    and "\<forall>c\<in>set s. isStrWhiteSpaceChar c"
  shows "serve rt W req = ([], json 400 (ErrorBody (js ''city is required.'')))"
proof -
  have "ToString rt (or_else (optprop (js ''city'') (Some body)) (JStr [])) = Inr s"
    using assms(3) by (cases "s = []") (simp_all add: or_else_def)
  moreover have "trim s = []"
    using assms(4) by (rule trim_blank)
  moreover have "req_method req \<noteq> js ''OPTIONS''"
    using assms(1) by (simp add: js_def)
  ultimately show ?thesis
    using assms(1,2) by (simp add: serve_def Let_def)
qed

theorem blank_city_rejected_witness:
  "list_all isStrWhiteSpaceChar (js ''   '')
   \<and> serve runtime_excerpt (world_of (reply_text text_empty)) (request (js ''   '') (js ''either'')) =
       ([], json 400 (ErrorBody (js ''city is required.'')))"
proof -
  have a: "req_method (request (js ''   '') (js ''either'')) = js ''POST''"
    and b: "req_json (request (js ''   '') (js ''either'')) =
      Some (JObj [(js ''city'', JStr (js ''   '')),
                  (js ''preferences'', JObj [(js ''place'', JStr (js ''either''))])])"
    by (simp_all add: request_def)
  have c: "optprop (js ''city'')
      (Some (JObj [(js ''city'', JStr (js ''   '')),
                   (js ''preferences'', JObj [(js ''place'', JStr (js ''either''))])])) =
      Some (JStr (js ''   ''))"
    by (simp add: optprop_def)
  have d: "\<forall>c\<in>set (js ''   ''). isStrWhiteSpaceChar c"
    by (simp add: js_def isStrWhiteSpaceChar_def)
  show ?thesis
    using blank_city_rejected [OF a b c d] d by (simp add: list_all_iff)
qed

end
